theory Spec2Isabelle
  imports Main "HOL-Library.Sublist"
begin

section \<open>Values and exceptions\<close>

text \<open>
  The program is \<^verbatim>\<open>github.py\<close>, a command-line client of the GitHub search API.
  A decoded JSON document is a Python value built from \<^verbatim>\<open>None\<close>, booleans,
  integers, strings, lists and dicts with string keys. A dict is kept as an association
  list that is read with \<open>map_of\<close>. Numbers with a fraction are outside this model.
\<close>

datatype json =
    JNull
  | JBool bool
  | JInt int
  | JStr string
  | JList "json list"
  | JObj "(string \<times> json) list"

text \<open>
  Every \<^verbatim>\<open>raise\<close> of the program and every exception of the interpreter or of a
  library that the modelled code can meet is a value. \<open>UnboundLocalError v\<close> is the read
  of a local variable \<open>v\<close> before any assignment; \<open>PyException a\<close> is
  \<^verbatim>\<open>Exception(a)\<close>, the only exception the program raises itself.
\<close>

datatype exn =
    KeyError string
  | TypeError
  | ValueError
  | AttributeError
  | UnboundLocalError string
  | PyException json
  | JSONDecodeError
  | ZlibError
  | ClientError

text \<open>Python's truth value of an object, as \<^verbatim>\<open>if x:\<close> and \<^verbatim>\<open>x or y\<close> use it.\<close>

fun truthy :: "json \<Rightarrow> bool" where
  "truthy JNull = False"
| "truthy (JBool b) = b"
| "truthy (JInt n) = (n \<noteq> 0)"
| "truthy (JStr s) = (s \<noteq> [])"
| "truthy (JList xs) = (xs \<noteq> [])"
| "truthy (JObj kvs) = (kvs \<noteq> [])"

section \<open>String methods\<close>

text \<open>
  \<^verbatim>\<open>s.find(sub)\<close>: the index of the first occurrence of \<open>sub\<close>, or \<open>-1\<close>.
\<close>

fun py_find :: "string \<Rightarrow> string \<Rightarrow> int" where
  "py_find sub [] = (if sub = [] then 0 else - 1)"
| "py_find sub (c # cs) =
     (if prefix sub (c # cs) then 0
      else (let r = py_find sub cs in if r < 0 then - 1 else r + 1))"

text \<open>
  \<^verbatim>\<open>s.split(sep, 1)\<close> for a non-empty \<open>sep\<close>: \<open>None\<close> when \<open>sep\<close> does not occur
  (Python returns the one-element list \<^verbatim>\<open>[s]\<close>), otherwise the text before and the
  text after the first occurrence.
\<close>

fun split_once :: "string \<Rightarrow> string \<Rightarrow> (string \<times> string) option" where
  "split_once sep [] = None"
| "split_once sep (c # cs) =
     (if prefix sep (c # cs) then Some ([], drop (length sep) (c # cs))
      else (case split_once sep cs of
              None \<Rightarrow> None
            | Some (a, b) \<Rightarrow> Some (c # a, b)))"

text \<open>
  \<^verbatim>\<open>a, b = s.split(sep, 1)\<close>: the unpacking raises \<^verbatim>\<open>ValueError\<close> when the
  list has one element.
\<close>

definition unpack_split :: "string \<Rightarrow> string \<Rightarrow> exn + (string \<times> string)" where
  "unpack_split sep s = (case split_once sep s of None \<Rightarrow> Inl ValueError | Some p \<Rightarrow> Inr p)"

lemma split_once_shorter:
  "split_once sep s = Some (a, b) \<Longrightarrow> sep \<noteq> [] \<Longrightarrow> length b < length s"
proof (induction s arbitrary: a)
  case Nil
  then show ?case by simp
next
  case (Cons c cs)
  show ?case
  proof (cases "prefix sep (c # cs)")
    case True
    with Cons.prems show ?thesis by (cases sep) auto
  next
    case False
    with Cons.prems obtain a' where "split_once sep cs = Some (a', b)"
      by (auto split: option.splits)
    with Cons.IH Cons.prems(2) show ?thesis by fastforce
  qed
qed

text \<open>
  \<^verbatim>\<open>s.split(sep)\<close> for a non-empty \<open>sep\<close>: every piece between the occurrences of
  \<open>sep\<close>, found from the left. (Python rejects an empty separator; every call of the
  program passes a literal of one or two characters.)
\<close>

function py_split :: "string \<Rightarrow> string \<Rightarrow> string list" where
  "py_split sep s =
     (if sep = [] then [s]
      else (case split_once sep s of
              None \<Rightarrow> [s]
            | Some (a, b) \<Rightarrow> a # py_split sep b))"
  by pat_completeness auto
termination
  by (relation "measure (\<lambda>(sep, s). length s)") (auto dest: split_once_shorter)

declare py_split.simps [simp del]


text \<open>
  \<^verbatim>\<open>s.replace(old, new)\<close> for a non-empty \<open>old\<close>: every occurrence, from the left,
  without overlap.
\<close>

function py_replace :: "string \<Rightarrow> string \<Rightarrow> string \<Rightarrow> string" where
  "py_replace old new s =
     (if old = [] then s
      else (case split_once old s of
              None \<Rightarrow> s
            | Some (a, b) \<Rightarrow> a @ new @ py_replace old new b))"
  by pat_completeness auto
termination
  by (relation "measure (\<lambda>(old, new, s). length s)") (auto dest: split_once_shorter)

declare py_replace.simps [simp del]

text \<open>Decimal digits (\<^verbatim>\<open>\d\<close> on the characters below 256) and \<^verbatim>\<open>int\<close> of a digit string.\<close>

definition is_digit :: "char \<Rightarrow> bool" where
  "is_digit c = (c \<in> set ''0123456789'')"

definition digit_val :: "char \<Rightarrow> int" where
  "digit_val c = int (of_char c) - 48"

definition int_of_digits :: "string \<Rightarrow> int" where
  "int_of_digits ds = foldl (\<lambda>a c. 10 * a + digit_val c) 0 ds"

section \<open>The pagination link parser\<close>

text \<open>
  \<^verbatim>\<open>re.search(r'&page=(\d+)', s)\<close>: group 1 of the leftmost match, \<open>None\<close> when there is
  no match. The group is greedy, so it is the longest run of digits after the literal.
\<close>

fun re_search_page :: "string \<Rightarrow> string option" where
  "re_search_page [] = None"
| "re_search_page (c # cs) =
     (if prefix ''&page='' (c # cs) \<and> takeWhile is_digit (drop 6 (c # cs)) \<noteq> []
      then Some (takeWhile is_digit (drop 6 (c # cs)))
      else re_search_page cs)"

text \<open>
  The loop of \<^verbatim>\<open>findlast\<close> over the entries. The local variable \<^verbatim>\<open>last\<close>
  (here \<open>lastv\<close>) is \<open>None\<close> while it is unbound.
\<close>

fun findlast_loop :: "string list \<Rightarrow> string option \<Rightarrow> exn + string option" where
  "findlast_loop [] lastv = Inr lastv"
| "findlast_loop (l # ls) lastv =
     (case unpack_split ''; '' l of
        Inl e \<Rightarrow> Inl e
      | Inr (url, rel) \<Rightarrow>
          findlast_loop ls (if rel = ''rel=\"last\"'' then Some url else lastv))"

text \<open>
  The end of \<^verbatim>\<open>findlast\<close>, once \<^verbatim>\<open>last\<close> is bound: an empty URL and a URL
  without \<^verbatim>\<open>&page=<digits>\<close> give the bare \<^verbatim>\<open>return\<close>.
\<close>

definition page_of_last :: "string \<Rightarrow> int option" where
  "page_of_last lastv =
     (if lastv = [] then None
      else (case re_search_page lastv of
              None \<Rightarrow> None
            | Some ds \<Rightarrow> Some (int_of_digits ds)))"

text \<open>
  \<^verbatim>\<open>findlast(link)\<close>: \<open>link\<close> is \<^verbatim>\<open>hdrs.get('Link')\<close>, a string or \<^verbatim>\<open>None\<close>.
  The result \<open>Inr None\<close> is the bare \<^verbatim>\<open>return\<close>. Reading \<^verbatim>\<open>last\<close> after a loop
  that never assigned it raises \<^verbatim>\<open>UnboundLocalError\<close>.
\<close>

definition findlast :: "string option \<Rightarrow> exn + int option" where
  "findlast link =
     (case link of
        None \<Rightarrow> Inr None
      | Some s \<Rightarrow>
          if s = [] then Inr None
          else (case findlast_loop (py_split '', '' s) None of
                  Inl e \<Rightarrow> Inl e
                | Inr None \<Rightarrow> Inl (UnboundLocalError ''last'')
                | Inr (Some lastv) \<Rightarrow> Inr (page_of_last lastv)))"

text \<open>
  The entries of a header that carry the relation \<^verbatim>\<open>rel="last"\<close>, in the words of the
  specification: each entry is a pair of a URL and a relation descriptor, and the entry
  selected is the last one whose descriptor is exactly \<^verbatim>\<open>rel="last"\<close>.
\<close>

definition last_entries :: "(string \<times> string) list \<Rightarrow> (string \<times> string) list" where
  "last_entries es = filter (\<lambda>(url, rel). rel = ''rel=\"last\"'') es"

section \<open>The JSON path resolver\<close>

text \<open>
  \<^verbatim>\<open>js[key]\<close> with a string key: a dict raises \<^verbatim>\<open>KeyError(key)\<close> for a key it does
  not hold; a list, a string, a number, a boolean and \<^verbatim>\<open>None\<close> raise
  \<^verbatim>\<open>TypeError\<close>.
\<close>

fun py_getitem :: "json \<Rightarrow> string \<Rightarrow> exn + json" where
  "py_getitem (JObj kvs) key =
     (case map_of kvs key of None \<Rightarrow> Inl (KeyError key) | Some v \<Rightarrow> Inr v)"
| "py_getitem js key = Inl TypeError"

function getjs :: "json \<Rightarrow> string \<Rightarrow> exn + json" where
  "getjs js path =
     (if 0 \<le> py_find ''.'' path then
        (case unpack_split ''.'' path of
           Inl e \<Rightarrow> Inl e
         | Inr (this, rest) \<Rightarrow>
             (case py_getitem js this of
                Inl e \<Rightarrow> Inl e
              | Inr v \<Rightarrow> getjs v rest))
      else py_getitem js path)"
  by pat_completeness auto
termination
  by (relation "measure (\<lambda>(js, path). length path)")
     (auto simp: unpack_split_def split: option.splits dest: split_once_shorter)

declare getjs.simps [simp del]

text \<open>
  The resolver in the words of the specification: the path is cut at every dot and the
  segments index into the nested mappings one after the other. A segment that a mapping
  does not hold fails with that segment alone; a segment applied to a value that is not a
  mapping fails with a type error.
\<close>

fun resolve :: "json \<Rightarrow> string list \<Rightarrow> exn + json" where
  "resolve js [] = Inr js"
| "resolve (JObj kvs) (seg # segs) =
     (case map_of kvs seg of None \<Rightarrow> Inl (KeyError seg) | Some v \<Rightarrow> resolve v segs)"
| "resolve js (seg # segs) = Inl TypeError"

text \<open>The value a nested mapping holds at a list of segments, if any.\<close>

fun value_at :: "json \<Rightarrow> string list \<Rightarrow> json option" where
  "value_at js [] = Some js"
| "value_at (JObj kvs) (seg # segs) =
     (case map_of kvs seg of None \<Rightarrow> None | Some v \<Rightarrow> value_at v segs)"
| "value_at js (seg # segs) = None"

section \<open>The API client\<close>

text \<open>
  The \<^verbatim>\<open>aiohttp.ClientSession\<close> of the client: the default headers of every request
  and the \<^verbatim>\<open>BasicAuth(user, pw)\<close> passed as \<^verbatim>\<open>auth\<close>, if any.
\<close>

record client_session =
  sess_headers :: "(string \<times> string) list"
  sess_auth :: "(string \<times> string) option"

text \<open>
  What \<^verbatim>\<open>self.d\<close> holds: the dict of the constructor, or the pair
  \<^verbatim>\<open>(js, r.headers)\<close> that \<^verbatim>\<open>get\<close> returns and \<^verbatim>\<open>loadapi\<close> stores.
\<close>

datatype endpoint_map =
    DictD "(string \<times> json) list"
  | TupleD json "(string \<times> string) list"

record GithubApi =
  baseurl :: string
  client :: client_session
  self_d :: endpoint_map

text \<open>The parsed command line (\<^verbatim>\<open>args\<close>); \<open>None\<close> is an option that was not given.\<close>

record args =
  arg_auth :: "string option"
  arg_verbose :: bool
  arg_urls :: bool
  arg_all :: bool
  arg_where :: string
  arg_query :: string
  arg_REPOS :: "string list"

definition default_d :: "(string \<times> json) list" where
  "default_d =
    [(''authorizations_url'', JStr ''https://api.github.com/authorizations''),
     (''code_search_url'', JStr ''https://api.github.com/search/code?q={query}{&page,per_page,sort,order}''),
     (''commit_search_url'', JStr ''https://api.github.com/search/commits?q={query}{&page,per_page,sort,order}''),
     (''current_user_authorizations_html_url'', JStr ''https://github.com/settings/connections/applications{/client_id}''),
     (''current_user_repositories_url'', JStr ''https://api.github.com/user/repos{?type,page,per_page,sort}''),
     (''current_user_url'', JStr ''https://api.github.com/user''),
     (''emails_url'', JStr ''https://api.github.com/user/emails''),
     (''emojis_url'', JStr ''https://api.github.com/emojis''),
     (''events_url'', JStr ''https://api.github.com/events''),
     (''feeds_url'', JStr ''https://api.github.com/feeds''),
     (''followers_url'', JStr ''https://api.github.com/user/followers''),
     (''following_url'', JStr ''https://api.github.com/user/following{/target}''),
     (''gists_url'', JStr ''https://api.github.com/gists{/gist_id}''),
     (''hub_url'', JStr ''https://api.github.com/hub''),
     (''issue_search_url'', JStr ''https://api.github.com/search/issues?q={query}{&page,per_page,sort,order}''),
     (''issues_url'', JStr ''https://api.github.com/issues''),
     (''keys_url'', JStr ''https://api.github.com/user/keys''),
     (''notifications_url'', JStr ''https://api.github.com/notifications''),
     (''organization_repositories_url'', JStr ''https://api.github.com/orgs/{org}/repos{?type,page,per_page,sort}''),
     (''organization_url'', JStr ''https://api.github.com/orgs/{org}''),
     (''public_gists_url'', JStr ''https://api.github.com/gists/public''),
     (''rate_limit_url'', JStr ''https://api.github.com/rate_limit''),
     (''repository_search_url'', JStr ''https://api.github.com/search/repositories?q={query}{&page,per_page,sort,order}''),
     (''repository_url'', JStr ''https://api.github.com/repos/{owner}/{repo}''),
     (''starred_gists_url'', JStr ''https://api.github.com/gists/starred''),
     (''starred_url'', JStr ''https://api.github.com/user/starred{/owner}{/repo}''),
     (''team_url'', JStr ''https://api.github.com/teams''),
     (''user_organizations_url'', JStr ''https://api.github.com/user/orgs''),
     (''user_repositories_url'', JStr ''https://api.github.com/users/{user}/repos{?type,page,per_page,sort}''),
     (''user_search_url'', JStr ''https://api.github.com/search/users?q={query}{&page,per_page,sort,order}''),
     (''user_url'', JStr ''https://api.github.com/users/{user}'')]"

text \<open>
  \<^verbatim>\<open>GithubApi.__init__\<close>, lines 37 to 47: the headers and the extra arguments of the
  session. \<^verbatim>\<open>if args.auth:\<close> is false for \<^verbatim>\<open>None\<close> and for the empty string.
\<close>

definition session_of_auth :: "string option \<Rightarrow> exn + client_session" where
  "session_of_auth auth =
     (let hdrs = [(''Accept'', ''application/vnd.github.v3+json'')] in
      case auth of
        None \<Rightarrow> Inr \<lparr>sess_headers = hdrs, sess_auth = None\<rparr>
      | Some a \<Rightarrow>
          if a = [] then Inr \<lparr>sess_headers = hdrs, sess_auth = None\<rparr>
          else if 0 < py_find '':'' a then
            (case unpack_split '':'' a of
               Inl e \<Rightarrow> Inl e
             | Inr (user, pw) \<Rightarrow> Inr \<lparr>sess_headers = hdrs, sess_auth = Some (user, pw)\<rparr>)
          else
            Inr \<lparr>sess_headers = hdrs @ [(''Authorization'', ''token '' @ a)],
                 sess_auth = None\<rparr>)"

definition GithubApi_init :: "args \<Rightarrow> exn + GithubApi" where
  "GithubApi_init a =
     (case session_of_auth (arg_auth a) of
        Inl e \<Rightarrow> Inl e
      | Inr sess \<Rightarrow>
          Inr \<lparr>baseurl = ''https://api.github.com/'', client = sess, self_d = DictD default_d\<rparr>)"

text \<open>The two authentication mechanisms of a session.\<close>

definition basic_auth_active :: "client_session \<Rightarrow> bool" where
  "basic_auth_active sess = (sess_auth sess \<noteq> None)"

definition token_header_active :: "client_session \<Rightarrow> bool" where
  "token_header_active sess = (map_of (sess_headers sess) ''Authorization'' \<noteq> None)"

section \<open>Requests, responses and the environment\<close>

text \<open>
  One GET of the session: the URL and the \<^verbatim>\<open>params\<close> dict, in the order of its keyword
  arguments.
\<close>

record request =
  req_url :: string
  req_params :: "(string \<times> json) list"

text \<open>
  What the program reads of an \<^verbatim>\<open>aiohttp\<close> response: \<^verbatim>\<open>r.status\<close>,
  \<^verbatim>\<open>r.headers\<close> and the raw body \<^verbatim>\<open>r._content\<close> (bytes, one \<open>char\<close> each).
\<close>

record response =
  resp_status :: int
  resp_headers :: "(string \<times> string) list"
  resp_content :: string

text \<open>
  The libraries and the network are parameters of the model. \<open>net\<close> answers a request,
  given the requests made before it, with a response or with the exception that
  \<^verbatim>\<open>client.get\<close> raises; \<open>r_json\<close> is \<^verbatim>\<open>await r.json()\<close>, \<open>zlib_decompress\<close> is
  \<^verbatim>\<open>zlib.decompress(data, wbits=31)\<close> and \<open>json_loads\<close> is \<^verbatim>\<open>json.loads\<close>.
\<close>

record env =
  net :: "request list \<Rightarrow> request \<Rightarrow> exn + response"
  r_json :: "response \<Rightarrow> exn + json"
  zlib_decompress :: "string \<Rightarrow> exn + string"
  json_loads :: "string \<Rightarrow> exn + json"

text \<open>
  A line on standard output. \<open>Printf f vs\<close> is \<^verbatim>\<open>print(f % vs)\<close> with the values
  not yet rendered, \<open>PrintVals vs\<close> is \<^verbatim>\<open>print(v1, v2, ...)\<close> and \<open>PrintResponse r\<close> is
  \<^verbatim>\<open>print(r)\<close>.
\<close>

datatype outline =
    Printf string "json list"
  | PrintVals "json list"
  | PrintResponse response

text \<open>The effects of a run: the requests sent, oldest first, and the lines printed.\<close>

record io =
  trace :: "request list"
  out :: "outline list"

definition print_line :: "outline \<Rightarrow> io \<Rightarrow> io" where
  "print_line ln s = s\<lparr>out := out s @ [ln]\<rparr>"



text \<open>
  \<^verbatim>\<open>js.get(key)\<close>: a dict returns the value or \<^verbatim>\<open>None\<close>; no other JSON value has a
  method \<^verbatim>\<open>get\<close>.
\<close>

fun py_get :: "json \<Rightarrow> string \<Rightarrow> exn + json" where
  "py_get (JObj kvs) key = Inr (case map_of kvs key of None \<Rightarrow> JNull | Some v \<Rightarrow> v)"
| "py_get js key = Inl AttributeError"

section \<open>The methods of the client\<close>

definition gzip_magic :: string where
  "gzip_magic = [CHR 0x1F, CHR 0x8B]"

text \<open>
  Lines 101 to 110 of \<^verbatim>\<open>get\<close>, the \<^verbatim>\<open>try\<close> statement. \<open>Inr (Some js)\<close>: the variable
  \<^verbatim>\<open>js\<close> is bound. \<open>Inr None\<close>: \<^verbatim>\<open>r.json()\<close> raised, the handler found no gzip magic
  and ended, so the exception is swallowed and \<^verbatim>\<open>js\<close> is left unbound. \<open>Inl e\<close>: an
  exception raised inside the handler leaves \<^verbatim>\<open>get\<close>.
\<close>

definition decode_body :: "env \<Rightarrow> response \<Rightarrow> exn + json option" where
  "decode_body E r =
     (case r_json E r of
        Inr js \<Rightarrow> Inr (Some js)
      | Inl e \<Rightarrow>
          if prefix gzip_magic (resp_content r) then
            (case zlib_decompress E (resp_content r) of
               Inl e2 \<Rightarrow> Inl e2
             | Inr data \<Rightarrow>
                 (case json_loads E data of
                    Inl e3 \<Rightarrow> Inl e3
                  | Inr js \<Rightarrow> Inr (Some js)))
          else Inr None)"

text \<open>
  \<^verbatim>\<open>GithubApi.get(path, params)\<close>. The request is recorded before the network answers.
  After the \<^verbatim>\<open>try\<close> statement both branches read \<^verbatim>\<open>js\<close>: the \<^verbatim>\<open>print\<close> of line
  115 when the status is not 200, the \<^verbatim>\<open>return\<close> of line 119 otherwise.
\<close>

definition GithubApi_get ::
  "env \<Rightarrow> GithubApi \<Rightarrow> string \<Rightarrow> (string \<times> json) list \<Rightarrow> io \<Rightarrow>
     (exn + json \<times> (string \<times> string) list) \<times> io" where
  "GithubApi_get E self path params s =
     (let rq = \<lparr>req_url = path, req_params = params\<rparr>;
          s1 = s\<lparr>trace := trace s @ [rq]\<rparr>
      in case net E (trace s) rq of
           Inl e \<Rightarrow> (Inl e, s1)
         | Inr r \<Rightarrow>
             (case decode_body E r of
                Inl e \<Rightarrow> (Inl e, s1)
              | Inr bound \<Rightarrow>
                  if resp_status r \<noteq> 200 then
                    (case bound of
                       None \<Rightarrow> (Inl (UnboundLocalError ''js''), s1)
                     | Some js \<Rightarrow>
                         (let s2 = print_line (PrintResponse r)
                                     (print_line (PrintVals [JStr ''HTTP status'',
                                        JInt (resp_status r), js]) s1)
                          in case py_get js ''message'' of
                               Inl e \<Rightarrow> (Inl e, s2)
                             | Inr m \<Rightarrow> (Inl (PyException m), s2)))
                  else
                    (case bound of
                       None \<Rightarrow> (Inl (UnboundLocalError ''js''), s1)
                     | Some js \<Rightarrow> (Inr (js, resp_headers r), s1))))"

text \<open>\<^verbatim>\<open>GithubApi.loadapi()\<close>: the whole result of \<^verbatim>\<open>get\<close> is stored in \<^verbatim>\<open>self.d\<close>.\<close>

definition GithubApi_loadapi :: "env \<Rightarrow> GithubApi \<Rightarrow> io \<Rightarrow> (exn + GithubApi) \<times> io" where
  "GithubApi_loadapi E self s =
     (case GithubApi_get E self (baseurl self) [] s of
        (Inl e, s1) \<Rightarrow> (Inl e, s1)
      | (Inr (js, hdrs), s1) \<Rightarrow> (Inr (self\<lparr>self_d := TupleD js hdrs\<rparr>), s1))"

definition apos :: string where
  "apos = [CHR 0x27]"

text \<open>
  \<^verbatim>\<open>GithubApi.getapi(apiname)\<close>: \<^verbatim>\<open>self.d.get(apiname)\<close>, then the test
  \<^verbatim>\<open>if not url\<close>. A tuple has no method \<^verbatim>\<open>get\<close>.
\<close>

definition GithubApi_getapi :: "GithubApi \<Rightarrow> string \<Rightarrow> exn + json" where
  "GithubApi_getapi self apiname =
     (case self_d self of
        TupleD js hdrs \<Rightarrow> Inl AttributeError
      | DictD kvs \<Rightarrow>
          (case py_get (JObj kvs) apiname of
             Inl e \<Rightarrow> Inl e
           | Inr url \<Rightarrow>
               if truthy url then Inr url
               else Inl (PyException
                      (JStr (''can'' @ apos @ ''t find '' @ apos @ apiname @ apos @ '' api'')))))"


text \<open>\<^verbatim>\<open>GithubApi.info(fullname)\<close>.\<close>

definition GithubApi_info ::
  "env \<Rightarrow> GithubApi \<Rightarrow> string \<Rightarrow> io \<Rightarrow> (exn + json \<times> (string \<times> string) list) \<times> io" where
  "GithubApi_info E self fullname s =
     (case unpack_split ''/'' fullname of
        Inl e \<Rightarrow> (Inl e, s)
      | Inr (owner, repo) \<Rightarrow>
          (case GithubApi_getapi self ''repository_url'' of
             Inl e \<Rightarrow> (Inl e, s)
           | Inr (JStr url) \<Rightarrow>
               GithubApi_get E self
                 (py_replace ''{repo}'' repo (py_replace ''{owner}'' owner url)) [] s
           | Inr other \<Rightarrow> (Inl AttributeError, s)))"

section \<open>Printing\<close>

text \<open>
  Sequencing of computations that may raise: the first exception ends the evaluation.
\<close>

definition and_then :: "exn + 'a \<Rightarrow> ('a \<Rightarrow> exn + 'b) \<Rightarrow> exn + 'b" where
  "and_then r f = (case r of Inl e \<Rightarrow> Inl e | Inr v \<Rightarrow> f v)"

text \<open>
  The \<^verbatim>\<open>%\<close> operator with a tuple of arguments. Each argument comes with the
  conversion that the format string has at its place: \<^verbatim>\<open>%s\<close> accepts any value,
  \<^verbatim>\<open>%d\<close> raises \<^verbatim>\<open>TypeError\<close> unless the value is a number (a boolean is one).
\<close>

datatype conv = ConvD | ConvS

fun is_number :: "json \<Rightarrow> bool" where
  "is_number (JInt n) = True"
| "is_number (JBool b) = True"
| "is_number js = False"

definition py_format :: "string \<Rightarrow> (conv \<times> json) list \<Rightarrow> exn + outline" where
  "py_format fmt cargs =
     (if list_ex (\<lambda>(c, v). c = ConvD \<and> \<not> is_number v) cargs then Inl TypeError
      else Inr (Printf fmt (map snd cargs)))"






text \<open>\<^verbatim>\<open>printrepoinfo(repo, namefield, args)\<close>.\<close>

definition printrepoinfo :: "json \<Rightarrow> string \<Rightarrow> args \<Rightarrow> io \<Rightarrow> (exn + unit) \<times> io" where
  "printrepoinfo repo namefield a s =
     (let ln =
        (if arg_urls a then
           and_then (getjs repo ''html_url'') (\<lambda>html_url. Inr (PrintVals [html_url]))
         else if arg_verbose a then
           and_then (getjs repo ''size'') (\<lambda>sz.
           and_then (getjs repo ''created_at'') (\<lambda>created_at.
           and_then (getjs repo ''updated_at'') (\<lambda>updated_at.
           and_then (getjs repo namefield) (\<lambda>name.
           and_then (getjs repo ''description'') (\<lambda>description.
             py_format ''%10d [%s ; %s] %-25s %s''
               [(ConvD, sz), (ConvS, created_at), (ConvS, updated_at), (ConvS, name),
                (ConvS, description)])))))
         else
           and_then (getjs repo ''size'') (\<lambda>sz.
           and_then (getjs repo namefield) (\<lambda>name.
           and_then (getjs repo ''description'') (\<lambda>description.
             py_format ''%10d %-25s %s''
               [(ConvD, sz), (ConvS, name), (ConvS, description)]))))
      in case ln of
           Inl e \<Rightarrow> (Inl e, s)
         | Inr l \<Rightarrow> (Inr (), print_line l s))"

section \<open>The search orchestrator\<close>




section \<open>The repository-info batch\<close>

text \<open>
  \<^verbatim>\<open>re.sub(r'.*github.com/', '', name)\<close>. \<open>occ_github\<close>: the text starts with
  \<^verbatim>\<open>github\<close>, one character that is not a newline, and \<^verbatim>\<open>com/\<close>. \<open>match_github\<close>:
  the length of the match of the whole pattern at the start of the text; the greedy
  \<^verbatim>\<open>.*\<close> first tries to take one more character (never a newline) and falls back to
  the shorter match.
\<close>

definition occ_github :: "string \<Rightarrow> bool" where
  "occ_github s =
     (prefix ''github'' s \<and>
      (case drop 6 s of [] \<Rightarrow> False | d # r \<Rightarrow> d \<noteq> CHR 0x0A \<and> prefix ''com/'' r))"

lemma occ_github_shape:
  "occ_github s \<Longrightarrow> \<exists>d z. d \<noteq> CHR 0x0A \<and> s = ''github'' @ d # ''com/'' @ z"
proof -
  assume o: "occ_github s"
  then obtain t where t: "s = ''github'' @ t"
    by (auto simp: occ_github_def prefix_def)
  with o obtain d r where dr: "t = d # r" "d \<noteq> CHR 0x0A" "prefix ''com/'' r"
    by (auto simp: occ_github_def split: list.splits)
  then obtain z where "r = ''com/'' @ z" by (auto simp: prefix_def)
  with t dr show ?thesis by auto
qed

fun match_github :: "string \<Rightarrow> nat option" where
  "match_github [] = None"
| "match_github (c # cs) =
     (case (if c = CHR 0x0A then None else match_github cs) of
        Some n \<Rightarrow> Some (Suc n)
      | None \<Rightarrow> if occ_github (c # cs) then Some 11 else None)"

lemma match_github_bounds: "match_github s = Some n \<Longrightarrow> 0 < n \<and> n \<le> length s"
proof (induction s arbitrary: n)
  case Nil
  then show ?case by simp
next
  case (Cons c cs)
  then show ?case
    by (auto split: option.splits if_splits dest!: occ_github_shape)
qed

text \<open>
  The substitution replaces every match by the empty string, from the left; a character
  at which no match starts is kept.
\<close>

function sub_github :: "string \<Rightarrow> string" where
  "sub_github s =
     (case match_github s of
        Some n \<Rightarrow> sub_github (drop n s)
      | None \<Rightarrow> (case s of [] \<Rightarrow> [] | c # cs \<Rightarrow> c # sub_github cs))"
  by pat_completeness auto
termination
  by (relation "measure length") (auto dest: match_github_bounds)

declare sub_github.simps [simp del]

text \<open>
  \<^verbatim>\<open>re.match(r'^[^/]+/[^/]+', name)\<close>: the characters before the first slash, which
  must be at least one, the slash, and the characters up to the next slash or the end,
  again at least one. The result is \<^verbatim>\<open>m.group(0)\<close>.
\<close>

definition match_owner_repo :: "string \<Rightarrow> string option" where
  "match_owner_repo s =
     (let owner = takeWhile (\<lambda>c. c \<noteq> CHR ''/'') s;
          rest = dropWhile (\<lambda>c. c \<noteq> CHR ''/'') s
      in if owner = [] \<or> rest = [] then None
         else (let repo = takeWhile (\<lambda>c. c \<noteq> CHR ''/'') (tl rest)
               in if repo = [] then None else Some (owner @ ''/'' @ repo)))"

definition sanitizereponame :: "string \<Rightarrow> string option" where
  "sanitizereponame name = match_owner_repo (sub_github name)"

text \<open>The report of line 308 for an identifier that does not parse.\<close>

definition report_line :: "string \<Rightarrow> outline" where
  "report_line name =
     Printf (''failed to parse repository name from '' @ apos @ ''%s'' @ apos) [JStr name]"

text \<open>
  \<^verbatim>\<open>inforepos\<close>, as a loop over \<^verbatim>\<open>args.REPOS\<close>. \<^verbatim>\<open>if not repo\<close> holds for
  \<^verbatim>\<open>None\<close> and for the empty string; \<^verbatim>\<open>continue\<close> goes on with the next name. An
  exception of \<^verbatim>\<open>api.info\<close> or of \<^verbatim>\<open>printrepoinfo\<close> is not caught and leaves the loop.
\<close>

fun inforepos_loop ::
  "env \<Rightarrow> GithubApi \<Rightarrow> args \<Rightarrow> string list \<Rightarrow> io \<Rightarrow> (exn + unit) \<times> io" where
  "inforepos_loop E api a [] s = (Inr (), s)"
| "inforepos_loop E api a (name # names) s =
     (case sanitizereponame name of
        None \<Rightarrow>
          inforepos_loop E api a names (print_line (report_line name) s)
      | Some repo \<Rightarrow>
          if repo = [] then
            inforepos_loop E api a names (print_line (report_line name) s)
          else
            (case GithubApi_info E api repo s of
               (Inl e, s1) \<Rightarrow> (Inl e, s1)
             | (Inr (info, hdrs), s1) \<Rightarrow>
                 (case printrepoinfo info ''full_name'' a s1 of
                    (Inl e, s2) \<Rightarrow> (Inl e, s2)
                  | (Inr u, s2) \<Rightarrow> inforepos_loop E api a names s2)))"

definition inforepos :: "env \<Rightarrow> GithubApi \<Rightarrow> args \<Rightarrow> io \<Rightarrow> (exn + unit) \<times> io" where
  "inforepos E api a s = inforepos_loop E api a (arg_REPOS a) s"

section \<open>Verified properties\<close>

subsection \<open>The pagination link parser\<close>

lemma findlast_loop_malformed:
  "\<exists>l\<in>set ls. split_once ''; '' l = None \<Longrightarrow> findlast_loop ls acc = Inl ValueError"
proof (induction ls arbitrary: acc)
  case Nil
  then show ?case by simp
next
  case (Cons l ls)
  show ?case
  proof (cases "split_once ''; '' l")
    case None
    then show ?thesis by (simp add: unpack_split_def)
  next
    case (Some p)
    with Cons.prems have "\<exists>l\<in>set ls. split_once ''; '' l = None" by auto
    from Cons.IH [OF this] Some show ?thesis
      by (cases p) (simp add: unpack_split_def)
  qed
qed

lemma findlast_loop_wellformed:
  "map (split_once ''; '') ls = map Some es \<Longrightarrow>
   findlast_loop ls acc =
     Inr (if last_entries es = [] then acc else Some (fst (last (last_entries es))))"
proof (induction ls arbitrary: acc es)
  case Nil
  then show ?case by (simp add: last_entries_def)
next
  case (Cons l ls)
  then obtain e es' where es: "es = e # es'" and l: "split_once ''; '' l = Some e"
    and rest: "map (split_once ''; '') ls = map Some es'"
    by (cases es) auto
  obtain url rel where e: "e = (url, rel)" by (cases e)
  show ?case
    using Cons.IH [OF rest] l
    by (simp add: es e unpack_split_def last_entries_def)
qed

text \<open>
  Claim C1, as the code has it by design. An absent and an empty header give no page. A
  non-empty header is cut at every \<^verbatim>\<open>", "\<close>; an entry without \<^verbatim>\<open>"; "\<close> makes the
  unpacking fail, so the call raises \<^verbatim>\<open>ValueError\<close> and does not return "no last
  page". When every entry has the separator and at least one has the descriptor
  \<^verbatim>\<open>rel="last"\<close>, the result is read from the URL of the last such entry: the number
  after the first \<^verbatim>\<open>&page=\<close> that is followed by a digit, and no page when the URL is
  empty or has no such parameter. (A header whose entries are all well formed and none of
  which is \<^verbatim>\<open>rel="last"\<close> is not covered by this statement.)
\<close>

theorem findlast_by_design:
  "findlast None = Inr None \<and>
   findlast (Some []) = Inr None \<and>
   (\<forall>s. s \<noteq> [] \<and> (\<exists>l\<in>set (py_split '', '' s). split_once ''; '' l = None)
      \<longrightarrow> findlast (Some s) = Inl ValueError) \<and>
   (\<forall>s es. s \<noteq> [] \<and> map (split_once ''; '') (py_split '', '' s) = map Some es
        \<and> last_entries es \<noteq> []
      \<longrightarrow> findlast (Some s) = Inr (page_of_last (fst (last (last_entries es)))))"
  by (simp add: findlast_def findlast_loop_malformed findlast_loop_wellformed)

text \<open>A header with a \<^verbatim>\<open>next\<close> and a \<^verbatim>\<open>last\<close> entry, used to instantiate C1.\<close>

definition link7 :: string where
  "link7 = ''<https://x/?q=a&page=2>; rel=\"next\", <https://x/?q=a&page=7>; rel=\"last\"''"

text \<open>
  C1 at concrete headers: a well-formed header whose last page is 7, and a header whose
  only entry lacks the \<^verbatim>\<open>"; "\<close> separator.
\<close>

theorem findlast_by_design_witness:
  "link7 \<noteq> [] \<and>
   map (split_once ''; '') (py_split '', '' link7) =
     map Some [(''<https://x/?q=a&page=2>'', ''rel=\"next\"''), (''<https://x/?q=a&page=7>'', ''rel=\"last\"'')] \<and>
   findlast (Some link7) = Inr (Some 7) \<and>
   (\<exists>l\<in>set (py_split '', '' ''<https://x/?q=a&page=7> rel=\"last\"''). split_once ''; '' l = None) \<and>
   findlast (Some ''<https://x/?q=a&page=7> rel=\"last\"'') = Inl ValueError"
proof -
  have s: "link7 \<noteq> []" by (simp add: link7_def)
  have es: "map (split_once ''; '') (py_split '', '' link7) =
     map Some [(''<https://x/?q=a&page=2>'', ''rel=\"next\"''), (''<https://x/?q=a&page=7>'', ''rel=\"last\"'')]"
    by (simp add: link7_def py_split.simps)
  have le: "last_entries [(''<https://x/?q=a&page=2>'', ''rel=\"next\"''), (''<https://x/?q=a&page=7>'', ''rel=\"last\"'')]
     = [(''<https://x/?q=a&page=7>'', ''rel=\"last\"'')]"
    by (simp add: last_entries_def)
  have pg: "page_of_last ''<https://x/?q=a&page=7>'' = Some 7"
    by (simp add: page_of_last_def is_digit_def int_of_digits_def digit_val_def)
  have bad: "\<exists>l\<in>set (py_split '', '' ''<https://x/?q=a&page=7> rel=\"last\"''). split_once ''; '' l = None"
    by (simp add: py_split.simps)
  from findlast_by_design s es le pg bad show ?thesis
    by (metis fst_conv last.simps list.distinct(1))
qed

text \<open>
  Against C1 as stated: a malformed entry does not give "no last page", the call raises.
\<close>

theorem findlast_malformed_counterexample:
  "findlast (Some ''<https://x/?q=a&page=7> rel=\"last\"'') = Inl ValueError"
  by (simp add: findlast_def py_split.simps unpack_split_def)

text \<open>
  The remaining case: with no \<^verbatim>\<open>rel="last"\<close> entry the variable \<^verbatim>\<open>last\<close> is never
  assigned, and the test \<^verbatim>\<open>if not last\<close> that was meant to return raises instead.
\<close>

lemma findlast_no_last_entry:
  "findlast (Some ''<https://x/?q=a&page=2>; rel=\"next\"'') = Inl (UnboundLocalError ''last'')"
  by (simp add: findlast_def py_split.simps unpack_split_def)

subsection \<open>The JSON path resolver\<close>

lemma py_find_split_once:
  "sep \<noteq> [] \<Longrightarrow> (0 \<le> py_find sep s) = (split_once sep s \<noteq> None)"
  by (induction s) (auto split: option.splits)

lemma resolve_step:
  "resolve js (seg # segs) =
     (case py_getitem js seg of Inl e \<Rightarrow> Inl e | Inr v \<Rightarrow> resolve v segs)"
  by (cases js) (auto split: option.splits)

lemma getjs_resolve: "getjs js path = resolve js (py_split ''.'' path)"
proof (induction js path rule: getjs.induct)
  case (1 js path)
  show ?case
  proof (cases "split_once ''.'' path")
    case None
    then have "\<not> 0 \<le> py_find ''.'' path"
      by (simp add: py_find_split_once)
    with None show ?thesis
      by (subst getjs.simps, subst py_split.simps) (simp add: resolve_step split: sum.splits)
  next
    case (Some p)
    obtain this rest where p: "p = (this, rest)" by (cases p)
    from Some have f: "0 \<le> py_find ''.'' path"
      by (simp add: py_find_split_once)
    have u: "unpack_split ''.'' path = Inr (this, rest)"
      using Some p by (simp add: unpack_split_def)
    show ?thesis
    proof (cases "py_getitem js this")
      case (Inl e)
      with f u Some p show ?thesis
        by (subst getjs.simps, subst py_split.simps) (simp add: resolve_step)
    next
      case (Inr v)
      from "1.IH" [OF f u refl Inr]
      have "getjs v rest = resolve v (py_split ''.'' rest)" .
      with f u Some p Inr show ?thesis
        by (subst getjs.simps, subst py_split.simps) (simp add: resolve_step)
    qed
  qed
qed

lemma resolve_value_at:
  "resolve js segs = Inr v \<longleftrightarrow> value_at js segs = Some v"
  by (induction js segs rule: resolve.induct) (auto split: option.splits)

lemma resolve_error:
  "resolve js segs = Inl e \<Longrightarrow> e = TypeError \<or> (\<exists>seg\<in>set segs. e = KeyError seg)"
  by (induction js segs rule: resolve.induct) (auto split: option.splits)

text \<open>
  Claim C3, amended. \<^verbatim>\<open>getjs\<close> computes exactly the segment-by-segment lookup of the
  specification. When the nested mapping holds a value at the path, that value is
  returned. When it holds none, the call fails, and the error is either
  \<^verbatim>\<open>KeyError\<close> carrying one segment of the path and nothing else (no path so far), or
  \<^verbatim>\<open>TypeError\<close> when a segment is applied to a value that is not a mapping.
\<close>

theorem getjs_resolves:
  "getjs js path = resolve js (py_split ''.'' path) \<and>
   (value_at js (py_split ''.'' path) = Some v \<longrightarrow> getjs js path = Inr v) \<and>
   (value_at js (py_split ''.'' path) = None \<longrightarrow>
      (\<exists>e. getjs js path = Inl e \<and>
           (e = TypeError \<or> (\<exists>seg\<in>set (py_split ''.'' path). e = KeyError seg))))"
proof (intro conjI impI)
  show "getjs js path = resolve js (py_split ''.'' path)" by (rule getjs_resolve)
next
  assume "value_at js (py_split ''.'' path) = Some v"
  then show "getjs js path = Inr v" by (simp add: getjs_resolve resolve_value_at)
next
  assume n: "value_at js (py_split ''.'' path) = None"
  show "\<exists>e. getjs js path = Inl e \<and>
           (e = TypeError \<or> (\<exists>seg\<in>set (py_split ''.'' path). e = KeyError seg))"
  proof (cases "resolve js (py_split ''.'' path)")
    case (Inl e)
    with resolve_error [OF Inl] show ?thesis by (simp add: getjs_resolve)
  next
    case (Inr w)
    with n show ?thesis by (simp add: resolve_value_at)
  qed
qed

text \<open>A rate-limit document, used to instantiate C3.\<close>

definition limits_js :: json where
  "limits_js = JObj [(''resources'', JObj [(''core'', JObj [(''remaining'', JInt 42)])])]"

text \<open>C3 at a path that resolves and at a path whose second segment is missing.\<close>

theorem getjs_resolves_witness:
  "value_at limits_js (py_split ''.'' ''resources.core.remaining'') = Some (JInt 42) \<and>
   getjs limits_js ''resources.core.remaining'' = Inr (JInt 42) \<and>
   value_at limits_js (py_split ''.'' ''resources.search.remaining'') = None \<and>
   getjs limits_js ''resources.search.remaining'' = Inl (KeyError ''search'')"
proof -
  have a: "py_split ''.'' ''resources.core.remaining'' = [''resources'', ''core'', ''remaining'']"
    by (simp add: py_split.simps)
  have b: "py_split ''.'' ''resources.search.remaining'' = [''resources'', ''search'', ''remaining'']"
    by (simp add: py_split.simps)
  have va: "value_at limits_js [''resources'', ''core'', ''remaining''] = Some (JInt 42)"
    by (simp add: limits_js_def)
  have vb: "value_at limits_js [''resources'', ''search'', ''remaining''] = None"
    by (simp add: limits_js_def)
  have ra: "resolve limits_js [''resources'', ''core'', ''remaining''] = Inr (JInt 42)"
    by (simp add: limits_js_def)
  have rb: "resolve limits_js [''resources'', ''search'', ''remaining''] = Inl (KeyError ''search'')"
    by (simp add: limits_js_def)
  from getjs_resolves [of limits_js "''resources.core.remaining''" "JInt 42"]
       getjs_resolves [of limits_js "''resources.search.remaining''" "JNull"]
  show ?thesis by (simp add: a b va vb ra rb)
qed

text \<open>Two sibling mappings, both without the key \<^verbatim>\<open>c\<close>.\<close>

definition two_js :: json where
  "two_js = JObj [(''a'', JObj []), (''b'', JObj [])]"

text \<open>
  Against C3 as stated: the paths \<^verbatim>\<open>a.c\<close> and \<^verbatim>\<open>b.c\<close> fail with the same error
  value, so the error does not identify the path walked before the missing segment.
\<close>

theorem getjs_error_counterexample:
  "getjs two_js ''a.c'' = Inl (KeyError ''c'') \<and> getjs two_js ''b.c'' = Inl (KeyError ''c'')"
  by (simp add: getjs.simps two_js_def unpack_split_def)

subsection \<open>Credentials\<close>

lemma split_once_char:
  "c \<notin> set u \<Longrightarrow> split_once [c] (u @ c # w) = Some (u, w)"
  by (induction u) auto

lemma py_find_char_absent: "c \<notin> set s \<Longrightarrow> py_find [c] s = - 1"
  by (induction s) auto

lemma py_find_char_present: "c \<notin> set u \<Longrightarrow> py_find [c] (u @ c # w) = int (length u)"
  by (induction u) (auto simp: Let_def)

text \<open>
  Claim C7, amended. A credential \<^verbatim>\<open>user:secret\<close> with a non-empty \<open>user\<close> free of
  colons selects basic authentication with that user and the rest as the password, and
  adds no \<^verbatim>\<open>Authorization\<close> header. A non-empty credential without a colon adds the
  header \<^verbatim>\<open>Authorization: token <value>\<close> and no basic authentication. For every
  non-empty credential exactly one of the two mechanisms is active. For an absent or an
  empty credential neither is active.
\<close>

theorem session_of_auth_mechanisms:
  "(\<forall>u pw. u \<noteq> [] \<and> CHR '':'' \<notin> set u \<longrightarrow>
      session_of_auth (Some (u @ '':'' @ pw)) =
        Inr \<lparr>sess_headers = [(''Accept'', ''application/vnd.github.v3+json'')],
             sess_auth = Some (u, pw)\<rparr>) \<and>
   (\<forall>a. a \<noteq> [] \<and> CHR '':'' \<notin> set a \<longrightarrow>
      session_of_auth (Some a) =
        Inr \<lparr>sess_headers = [(''Accept'', ''application/vnd.github.v3+json''),
                             (''Authorization'', ''token '' @ a)],
             sess_auth = None\<rparr>) \<and>
   (\<forall>a. a \<noteq> [] \<longrightarrow>
      (\<exists>sess. session_of_auth (Some a) = Inr sess \<and>
              (basic_auth_active sess \<noteq> token_header_active sess))) \<and>
   (\<forall>auth. auth = None \<or> auth = Some [] \<longrightarrow>
      (\<exists>sess. session_of_auth auth = Inr sess \<and>
              \<not> basic_auth_active sess \<and> \<not> token_header_active sess))"
proof (intro conjI allI impI)
  fix u pw :: string
  assume h: "u \<noteq> [] \<and> CHR '':'' \<notin> set u"
  then have "py_find '':'' (u @ '':'' @ pw) = int (length u)"
    using py_find_char_present [of "CHR '':''" u pw] by simp
  moreover have "split_once '':'' (u @ '':'' @ pw) = Some (u, pw)"
    using h split_once_char [of "CHR '':''" u pw] by simp
  ultimately show "session_of_auth (Some (u @ '':'' @ pw)) =
        Inr \<lparr>sess_headers = [(''Accept'', ''application/vnd.github.v3+json'')],
             sess_auth = Some (u, pw)\<rparr>"
    using h by (simp add: session_of_auth_def unpack_split_def)
next
  fix a :: string
  assume h: "a \<noteq> [] \<and> CHR '':'' \<notin> set a"
  then have "py_find '':'' a = - 1" by (simp add: py_find_char_absent)
  with h show "session_of_auth (Some a) =
        Inr \<lparr>sess_headers = [(''Accept'', ''application/vnd.github.v3+json''),
                             (''Authorization'', ''token '' @ a)],
             sess_auth = None\<rparr>"
    by (simp add: session_of_auth_def)
next
  fix a :: string
  assume ne: "a \<noteq> []"
  show "\<exists>sess. session_of_auth (Some a) = Inr sess \<and>
              (basic_auth_active sess \<noteq> token_header_active sess)"
  proof (cases "0 < py_find '':'' a")
    case True
    then have "0 \<le> py_find '':'' a" by simp
    then obtain p where "split_once '':'' a = Some p"
      by (induction a) (auto split: option.splits if_splits simp: Let_def)
    with True ne show ?thesis
      by (cases p)
         (simp add: session_of_auth_def unpack_split_def basic_auth_active_def
            token_header_active_def)
  next
    case False
    with ne show ?thesis
      by (simp add: session_of_auth_def basic_auth_active_def token_header_active_def)
  qed
next
  fix auth :: "string option"
  assume "auth = None \<or> auth = Some []"
  then show "\<exists>sess. session_of_auth auth = Inr sess \<and>
              \<not> basic_auth_active sess \<and> \<not> token_header_active sess"
    by (auto simp: session_of_auth_def basic_auth_active_def token_header_active_def)
qed

text \<open>C7 at the credentials \<^verbatim>\<open>alice:secret123\<close> and \<^verbatim>\<open>ghp_abc\<close>.\<close>

theorem session_of_auth_mechanisms_witness:
  "session_of_auth (Some ''alice:secret123'') =
     Inr \<lparr>sess_headers = [(''Accept'', ''application/vnd.github.v3+json'')],
          sess_auth = Some (''alice'', ''secret123'')\<rparr> \<and>
   session_of_auth (Some ''ghp_abc'') =
     Inr \<lparr>sess_headers = [(''Accept'', ''application/vnd.github.v3+json''),
                          (''Authorization'', ''token ghp_abc'')],
          sess_auth = None\<rparr>"
proof -
  have a: "''alice'' \<noteq> [] \<and> CHR '':'' \<notin> set ''alice''" by simp
  have b: "''ghp_abc'' \<noteq> [] \<and> CHR '':'' \<notin> set ''ghp_abc''" by simp
  from session_of_auth_mechanisms a
  have "session_of_auth (Some (''alice'' @ '':'' @ ''secret123'')) =
     Inr \<lparr>sess_headers = [(''Accept'', ''application/vnd.github.v3+json'')],
          sess_auth = Some (''alice'', ''secret123'')\<rparr>" by blast
  moreover from session_of_auth_mechanisms b
  have "session_of_auth (Some ''ghp_abc'') =
     Inr \<lparr>sess_headers = [(''Accept'', ''application/vnd.github.v3+json''),
                          (''Authorization'', ''token '' @ ''ghp_abc'')],
          sess_auth = None\<rparr>" by blast
  ultimately show ?thesis by simp
qed

text \<open>
  Against C7 as stated: the empty credential activates neither mechanism, so "exactly
  one" does not hold for every credential value.
\<close>

theorem session_of_auth_empty_counterexample:
  "session_of_auth (Some []) =
     Inr \<lparr>sess_headers = [(''Accept'', ''application/vnd.github.v3+json'')], sess_auth = None\<rparr> \<and>
   \<not> basic_auth_active
       \<lparr>sess_headers = [(''Accept'', ''application/vnd.github.v3+json'')], sess_auth = None\<rparr> \<and>
   \<not> token_header_active
       \<lparr>sess_headers = [(''Accept'', ''application/vnd.github.v3+json'')], sess_auth = None\<rparr>"
  by (simp add: session_of_auth_def basic_auth_active_def token_header_active_def)

text \<open>
  Claim C10. A credential that starts with a colon has its first colon at index 0, so
  the test \<^verbatim>\<open>find(':') > 0\<close> fails: no basic authentication is set up and the whole
  string, colon included, is sent as \<^verbatim>\<open>Authorization: token <value>\<close>; for
  \<^verbatim>\<open>:secret\<close> the header is \<^verbatim>\<open>token :secret\<close>.
\<close>

theorem session_of_auth_leading_colon:
  "session_of_auth (Some (CHR '':'' # rest)) =
     Inr \<lparr>sess_headers = [(''Accept'', ''application/vnd.github.v3+json''),
                          (''Authorization'', ''token '' @ CHR '':'' # rest)],
          sess_auth = None\<rparr> \<and>
   session_of_auth (Some '':secret'') =
     Inr \<lparr>sess_headers = [(''Accept'', ''application/vnd.github.v3+json''),
                          (''Authorization'', ''token :secret'')],
          sess_auth = None\<rparr>"
  by (simp add: session_of_auth_def)

subsection \<open>Concrete environments\<close>

text \<open>
  A fixed environment for concrete runs: the network answers by the request alone, one
  decoder serves as \<^verbatim>\<open>r.json()\<close> on the body and as \<^verbatim>\<open>json.loads\<close>, and
  decompression always fails.
\<close>

definition stub_env :: "(request \<Rightarrow> exn + response) \<Rightarrow> (string \<Rightarrow> exn + json) \<Rightarrow> env" where
  "stub_env answer decode =
     \<lparr>net = (\<lambda>earlier rq. answer rq),
      r_json = (\<lambda>r. decode (resp_content r)),
      zlib_decompress = (\<lambda>data. Inl ZlibError),
      json_loads = decode\<rparr>"

text \<open>The state before the first request, and the client built without a credential.\<close>

definition io0 :: io where
  "io0 = \<lparr>trace = [], out = []\<rparr>"

definition api0 :: GithubApi where
  "api0 = \<lparr>baseurl = ''https://api.github.com/'',
           client = \<lparr>sess_headers = [(''Accept'', ''application/vnd.github.v3+json'')],
                     sess_auth = None\<rparr>,
           self_d = DictD default_d\<rparr>"

definition args0 :: args where
  "args0 = \<lparr>arg_auth = None, arg_verbose = False, arg_urls = False, arg_all = False,
            arg_where = ''code'', arg_query = [], arg_REPOS = []\<rparr>"

lemma GithubApi_init_api0:
  "GithubApi_init args0 = Inr api0"
  by (simp add: GithubApi_init_def session_of_auth_def api0_def args0_def)

subsection \<open>The GET request\<close>






text \<open>
  Claim C4, what the code does. When \<^verbatim>\<open>r.json()\<close> raises and the body does not start
  with the gzip magic bytes, the handler ends without raising and without binding
  \<^verbatim>\<open>js\<close>; the decode failure is dropped and \<^verbatim>\<open>get\<close> raises
  \<^verbatim>\<open>UnboundLocalError\<close> for \<^verbatim>\<open>js\<close> instead, whatever the status.
\<close>

theorem get_loses_decode_failure:
  "net E (trace s) \<lparr>req_url = path, req_params = params\<rparr> = Inr r \<and>
   r_json E r = Inl e \<and> \<not> prefix gzip_magic (resp_content r) \<longrightarrow>
     fst (GithubApi_get E self path params s) = Inl (UnboundLocalError ''js'')"
  by (simp add: GithubApi_get_def decode_body_def Let_def)

text \<open>A service that answers 200 with an HTML body, and a decoder that rejects every body.\<close>

definition html_page :: "request \<Rightarrow> exn + response" where
  "html_page rq = Inr \<lparr>resp_status = 200, resp_headers = [], resp_content = ''<html>''\<rparr>"

definition decode_none :: "string \<Rightarrow> exn + json" where
  "decode_none body = Inl JSONDecodeError"

text \<open>C4 at the HTML body: the caller sees \<^verbatim>\<open>UnboundLocalError\<close>, not the decode failure.\<close>

theorem get_loses_decode_failure_witness:
  "r_json (stub_env html_page decode_none)
     \<lparr>resp_status = 200, resp_headers = [], resp_content = ''<html>''\<rparr> = Inl JSONDecodeError \<and>
   \<not> prefix gzip_magic ''<html>'' \<and>
   fst (GithubApi_get (stub_env html_page decode_none) api0
          ''https://api.github.com/rate_limit'' [] io0)
     = Inl (UnboundLocalError ''js'')"
proof -
  let ?E = "stub_env html_page decode_none"
  let ?r = "\<lparr>resp_status = 200, resp_headers = [], resp_content = ''<html>''\<rparr>"
  let ?rq = "\<lparr>req_url = ''https://api.github.com/rate_limit'', req_params = []\<rparr>"
  have n: "net ?E (trace io0) ?rq = Inr ?r" by (simp add: stub_env_def html_page_def)
  have j: "r_json ?E ?r = Inl JSONDecodeError" by (simp add: stub_env_def decode_none_def)
  have g: "\<not> prefix gzip_magic (resp_content ?r)" by (simp add: gzip_magic_def)
  from get_loses_decode_failure [of ?E io0 "''https://api.github.com/rate_limit''" "[]" ?r
         JSONDecodeError api0] n j g
  have "fst (GithubApi_get ?E api0 ''https://api.github.com/rate_limit'' [] io0)
     = Inl (UnboundLocalError ''js'')" by blast
  with j g show ?thesis by simp
qed

text \<open>
  The other paths of the handler. With the magic bytes present, a successful
  decompression and decoding binds \<^verbatim>\<open>js\<close> and the call goes on as if \<^verbatim>\<open>r.json()\<close> had
  returned it; a failure of either step leaves \<^verbatim>\<open>get\<close> with the new exception, not with
  the one that \<^verbatim>\<open>r.json()\<close> raised.
\<close>

lemma get_gzip_fallback:
  assumes "net E (trace s) \<lparr>req_url = path, req_params = params\<rparr> = Inr r"
    and "r_json E r = Inl e" and "prefix gzip_magic (resp_content r)"
  shows "zlib_decompress E (resp_content r) = Inl e2 \<Longrightarrow>
           fst (GithubApi_get E self path params s) = Inl e2"
    and "zlib_decompress E (resp_content r) = Inr data \<Longrightarrow> json_loads E data = Inl e3 \<Longrightarrow>
           fst (GithubApi_get E self path params s) = Inl e3"
    and "zlib_decompress E (resp_content r) = Inr data \<Longrightarrow> json_loads E data = Inr js \<Longrightarrow>
           resp_status r = 200 \<Longrightarrow>
           fst (GithubApi_get E self path params s) = Inr (js, resp_headers r)"
  using assms by (simp_all add: GithubApi_get_def decode_body_def Let_def)

text \<open>
  Claim C5, what the code does. \<^verbatim>\<open>loadapi\<close> stores the pair \<^verbatim>\<open>(js, headers)\<close> that
  \<^verbatim>\<open>get\<close> returns, not the document, so after every successful \<^verbatim>\<open>loadapi\<close> the call
  \<^verbatim>\<open>self.d.get(apiname)\<close> of \<^verbatim>\<open>getapi\<close> raises \<^verbatim>\<open>AttributeError\<close> for every name.
\<close>

theorem loadapi_breaks_getapi:
  "GithubApi_loadapi E self s = (Inr self', s') \<longrightarrow>
     GithubApi_getapi self' apiname = Inl AttributeError"
  by (auto simp: GithubApi_loadapi_def GithubApi_getapi_def split: prod.splits sum.splits)

text \<open>
  A service root that answers 200 with a body that decodes to the default endpoint map.
\<close>

definition root_document :: "request \<Rightarrow> exn + response" where
  "root_document rq = Inr \<lparr>resp_status = 200, resp_headers = [], resp_content = ''ROOT''\<rparr>"

definition decode_root :: "string \<Rightarrow> exn + json" where
  "decode_root body = (if body = ''ROOT'' then Inr (JObj default_d) else Inl JSONDecodeError)"

text \<open>
  C5 at that service: \<^verbatim>\<open>rate_limit_url\<close> resolves before \<^verbatim>\<open>loadapi\<close> and raises after it.
\<close>

theorem loadapi_breaks_getapi_witness:
  "GithubApi_getapi api0 ''rate_limit_url'' = Inr (JStr ''https://api.github.com/rate_limit'') \<and>
   GithubApi_loadapi (stub_env root_document decode_root) api0 io0 =
     (Inr (api0\<lparr>self_d := TupleD (JObj default_d) []\<rparr>),
      \<lparr>trace = [\<lparr>req_url = ''https://api.github.com/'', req_params = []\<rparr>], out = []\<rparr>) \<and>
   GithubApi_getapi (api0\<lparr>self_d := TupleD (JObj default_d) []\<rparr>) ''rate_limit_url''
     = Inl AttributeError"
proof -
  have a: "GithubApi_getapi api0 ''rate_limit_url'' = Inr (JStr ''https://api.github.com/rate_limit'')"
    by (simp add: GithubApi_getapi_def api0_def default_d_def)
  have b: "GithubApi_loadapi (stub_env root_document decode_root) api0 io0 =
     (Inr (api0\<lparr>self_d := TupleD (JObj default_d) []\<rparr>),
      \<lparr>trace = [\<lparr>req_url = ''https://api.github.com/'', req_params = []\<rparr>], out = []\<rparr>)"
    by (simp add: GithubApi_loadapi_def GithubApi_get_def decode_body_def stub_env_def
          root_document_def decode_root_def io0_def api0_def Let_def)
  from loadapi_breaks_getapi [of "stub_env root_document decode_root" api0 io0
         "api0\<lparr>self_d := TupleD (JObj default_d) []\<rparr>" _ "''rate_limit_url''"] b
  have "GithubApi_getapi (api0\<lparr>self_d := TupleD (JObj default_d) []\<rparr>) ''rate_limit_url''
     = Inl AttributeError" by blast
  with a b show ?thesis by simp
qed

subsection \<open>The identifier sanitizer\<close>

lemma match_github_slash: "match_github s = Some n \<Longrightarrow> CHR ''/'' \<in> set s"
  by (induction s arbitrary: n) (auto split: option.splits if_splits dest!: occ_github_shape)

lemma sub_github_no_slash: "CHR ''/'' \<notin> set s \<Longrightarrow> sub_github s = s"
proof (induction s)
  case Nil
  then show ?case by (simp add: sub_github.simps)
next
  case (Cons c cs)
  then have "match_github (c # cs) = None"
    using match_github_slash [of "c # cs"] by (cases "match_github (c # cs)") auto
  with Cons show ?case by (subst sub_github.simps) simp
qed

lemma match_owner_repo_no_slash: "CHR ''/'' \<notin> set s \<Longrightarrow> match_owner_repo s = None"
  by (simp add: match_owner_repo_def Let_def)

lemma no_occ_tail: "\<forall>k. \<not> occ_github (drop k (c # cs)) \<Longrightarrow> \<forall>k. \<not> occ_github (drop k cs)"
proof
  fix k
  assume "\<forall>k. \<not> occ_github (drop k (c # cs))"
  then have "\<not> occ_github (drop (Suc k) (c # cs))" by blast
  then show "\<not> occ_github (drop k cs)" by simp
qed

lemma no_occ_head: "\<forall>k. \<not> occ_github (drop k s) \<Longrightarrow> \<not> occ_github s"
proof -
  assume "\<forall>k. \<not> occ_github (drop k s)"
  then have "\<not> occ_github (drop 0 s)" by blast
  then show ?thesis by simp
qed

lemma match_github_no_occ: "\<forall>k. \<not> occ_github (drop k s) \<Longrightarrow> match_github s = None"
proof (induction s)
  case Nil
  then show ?case by simp
next
  case (Cons c cs)
  from Cons.IH [OF no_occ_tail [OF Cons.prems]] no_occ_head [OF Cons.prems]
  show ?case by auto
qed

lemma sub_github_no_occ: "\<forall>k. \<not> occ_github (drop k s) \<Longrightarrow> sub_github s = s"
proof (induction s)
  case Nil
  then show ?case by (simp add: sub_github.simps)
next
  case (Cons c cs)
  from match_github_no_occ [OF Cons.prems] Cons.IH [OF no_occ_tail [OF Cons.prems]]
  show ?case by (subst sub_github.simps) simp
qed

lemma match_github_marker:
  "match_github t = None \<Longrightarrow> match_github (''github.com/'' @ t) = Some 11"
  by (simp add: occ_github_def)

lemma match_github_prefix:
  "CHR 0x0A \<notin> set p \<Longrightarrow> match_github u = Some n \<Longrightarrow> match_github (p @ u) = Some (length p + n)"
  by (induction p) auto

lemma sub_github_strips:
  assumes "CHR 0x0A \<notin> set p" and "\<forall>k. \<not> occ_github (drop k t)"
  shows "sub_github (p @ ''github.com/'' @ t) = t"
proof -
  have "match_github (''github.com/'' @ t) = Some 11"
    by (rule match_github_marker [OF match_github_no_occ [OF assms(2)]])
  then have "match_github (p @ ''github.com/'' @ t) = Some (length p + 11)"
    by (rule match_github_prefix [OF assms(1)])
  then have "sub_github (p @ ''github.com/'' @ t) = sub_github (drop (length p + 11) (p @ ''github.com/'' @ t))"
    by (subst sub_github.simps) simp
  also have "drop (length p + 11) (p @ ''github.com/'' @ t) = t" by simp
  finally show ?thesis by (simp add: sub_github_no_occ [OF assms(2)])
qed

lemma takeWhile_upto_char:
  "c \<notin> set xs \<Longrightarrow> takeWhile (\<lambda>x. x \<noteq> c) (xs @ c # ys) = xs"
  by (induction xs) auto

lemma takeWhile_no_char:
  "c \<notin> set xs \<Longrightarrow> takeWhile (\<lambda>x. x \<noteq> c) xs = xs"
  by (induction xs) auto

lemma dropWhile_upto_char:
  "c \<notin> set xs \<Longrightarrow> dropWhile (\<lambda>x. x \<noteq> c) (xs @ c # ys) = c # ys"
  by (induction xs) auto

lemma match_owner_repo_two_segments:
  assumes "ow \<noteq> []" "rp \<noteq> []" "CHR ''/'' \<notin> set ow" "CHR ''/'' \<notin> set rp"
    and "rest = [] \<or> hd rest = CHR ''/''"
  shows "match_owner_repo (ow @ ''/'' @ rp @ rest) = Some (ow @ ''/'' @ rp)"
proof -
  have a: "takeWhile (\<lambda>c. c \<noteq> CHR ''/'') (ow @ ''/'' @ rp @ rest) = ow"
    using takeWhile_upto_char [OF assms(3)] by simp
  have b: "dropWhile (\<lambda>c. c \<noteq> CHR ''/'') (ow @ ''/'' @ rp @ rest) = ''/'' @ rp @ rest"
    using dropWhile_upto_char [OF assms(3)] by simp
  have c: "takeWhile (\<lambda>c. c \<noteq> CHR ''/'') (rp @ rest) = rp"
  proof (cases rest)
    case Nil
    then show ?thesis using takeWhile_no_char [OF assms(4)] by simp
  next
    case (Cons x xs)
    with assms(5) have "rest = CHR ''/'' # xs" by simp
    then show ?thesis using takeWhile_upto_char [OF assms(4)] by simp
  qed
  from a b c assms(1,2) show ?thesis
    by (simp add: match_owner_repo_def Let_def)
qed

lemma occ_github_needs_g: "CHR ''g'' \<notin> set s \<Longrightarrow> \<not> occ_github (drop k s)"
proof
  assume g: "CHR ''g'' \<notin> set s" and "occ_github (drop k s)"
  then obtain d z where "drop k s = ''github'' @ d # ''com/'' @ z"
    by (auto dest!: occ_github_shape)
  then have "CHR ''g'' \<in> set (drop k s)" by simp
  with g show False by (auto dest: in_set_dropD)
qed


text \<open>
  Claim C9. The sanitizer extracts \<^verbatim>\<open>foo/bar\<close> from
  \<^verbatim>\<open>https://github.com/foo/bar/issues/1\<close>, and returns no value for \<^verbatim>\<open>not-a-repo\<close> and
  for every identifier without a slash. In general, a prefix without a newline followed by
  \<^verbatim>\<open>github.com/\<close> is stripped, and of what follows only the first two slash-separated
  segments are kept, provided both are non-empty and the pattern \<^verbatim>\<open>github.com/\<close> does not
  occur again after the prefix.
\<close>

theorem sanitizereponame_extracts:
  "sanitizereponame ''https://github.com/foo/bar/issues/1'' = Some ''foo/bar'' \<and>
   sanitizereponame ''not-a-repo'' = None \<and>
   (\<forall>name. CHR ''/'' \<notin> set name \<longrightarrow> sanitizereponame name = None) \<and>
   (\<forall>p ow rp rest.
      CHR 0x0A \<notin> set p \<and> ow \<noteq> [] \<and> rp \<noteq> [] \<and> CHR ''/'' \<notin> set ow \<and> CHR ''/'' \<notin> set rp \<and>
      (rest = [] \<or> hd rest = CHR ''/'') \<and>
      (\<forall>k. \<not> occ_github (drop k (ow @ ''/'' @ rp @ rest)))
      \<longrightarrow> sanitizereponame (p @ ''github.com/'' @ ow @ ''/'' @ rp @ rest) = Some (ow @ ''/'' @ rp))"
proof (intro conjI allI impI)
  show "sanitizereponame ''https://github.com/foo/bar/issues/1'' = Some ''foo/bar''"
    by (simp add: sanitizereponame_def sub_github.simps occ_github_def match_owner_repo_def)
next
  show "sanitizereponame ''not-a-repo'' = None"
    by (simp add: sanitizereponame_def sub_github_no_slash match_owner_repo_no_slash)
next
  fix name :: string
  assume "CHR ''/'' \<notin> set name"
  then show "sanitizereponame name = None"
    by (simp add: sanitizereponame_def sub_github_no_slash match_owner_repo_no_slash)
next
  fix p ow rp rest :: string
  assume h: "CHR 0x0A \<notin> set p \<and> ow \<noteq> [] \<and> rp \<noteq> [] \<and> CHR ''/'' \<notin> set ow \<and> CHR ''/'' \<notin> set rp \<and>
      (rest = [] \<or> hd rest = CHR ''/'') \<and>
      (\<forall>k. \<not> occ_github (drop k (ow @ ''/'' @ rp @ rest)))"
  then have "sub_github (p @ ''github.com/'' @ (ow @ ''/'' @ rp @ rest)) = ow @ ''/'' @ rp @ rest"
    by (intro sub_github_strips) auto
  moreover from h have "match_owner_repo (ow @ ''/'' @ rp @ rest) = Some (ow @ ''/'' @ rp)"
    by (intro match_owner_repo_two_segments) auto
  ultimately show "sanitizereponame (p @ ''github.com/'' @ ow @ ''/'' @ rp @ rest) = Some (ow @ ''/'' @ rp)"
    by (simp add: sanitizereponame_def)
qed

text \<open>C9 at an identifier without a slash and at a decorated URL.\<close>

theorem sanitizereponame_extracts_witness:
  "CHR ''/'' \<notin> set ''octocat'' \<and> sanitizereponame ''octocat'' = None \<and>
   (\<forall>k. \<not> occ_github (drop k (''torvalds'' @ ''/'' @ ''linux'' @ ''/pull/7''))) \<and>
   sanitizereponame (''http://www.'' @ ''github.com/'' @ ''torvalds'' @ ''/'' @ ''linux'' @ ''/pull/7'')
     = Some ''torvalds/linux''"
proof -
  have a: "CHR ''/'' \<notin> set ''octocat''" by simp
  have o: "\<forall>k. \<not> occ_github (drop k (''torvalds'' @ ''/'' @ ''linux'' @ ''/pull/7''))"
    by (intro allI occ_github_needs_g) simp
  have h: "CHR 0x0A \<notin> set ''http://www.'' \<and> ''torvalds'' \<noteq> [] \<and> ''linux'' \<noteq> [] \<and>
      CHR ''/'' \<notin> set ''torvalds'' \<and> CHR ''/'' \<notin> set ''linux'' \<and>
      (''/pull/7'' = [] \<or> hd ''/pull/7'' = CHR ''/'')" by simp
  from sanitizereponame_extracts a have n: "sanitizereponame ''octocat'' = None" by blast
  from sanitizereponame_extracts h o
  have "sanitizereponame (''http://www.'' @ ''github.com/'' @ ''torvalds'' @ ''/'' @ ''linux'' @ ''/pull/7'')
     = Some (''torvalds'' @ ''/'' @ ''linux'')" by blast
  with a n o show ?thesis by simp
qed

subsection \<open>The repository-info batch\<close>

lemma sanitizereponame_nonempty: "sanitizereponame name = Some repo \<Longrightarrow> repo \<noteq> []"
  by (auto simp: sanitizereponame_def match_owner_repo_def Let_def split: if_splits)

lemma inforepos_loop_append:
  "inforepos_loop E api a pre s = (Inr (), sp) \<Longrightarrow>
   inforepos_loop E api a (pre @ post) s = inforepos_loop E api a post sp"
proof (induction pre arbitrary: s)
  case Nil
  then show ?case by simp
next
  case (Cons name pre)
  show ?case
  proof (cases "sanitizereponame name")
    case None
    with Cons.prems Cons.IH show ?thesis by simp
  next
    case (Some repo)
    then have ne: "repo \<noteq> []" by (rule sanitizereponame_nonempty)
    from Cons.prems Some ne obtain info hdrs s1 s2
      where i: "GithubApi_info E api repo s = (Inr (info, hdrs), s1)"
        and p: "printrepoinfo info ''full_name'' a s1 = (Inr (), s2)"
        and r: "inforepos_loop E api a pre s2 = (Inr (), sp)"
      by (auto split: prod.splits sum.splits)
    from Cons.IH [OF r] Some ne i p show ?thesis by simp
  qed
qed

lemma GithubApi_get_trace:
  "GithubApi_get E self path params s = (r, s') \<Longrightarrow>
   trace s' = trace s @ [\<lparr>req_url = path, req_params = params\<rparr>]"
  by (auto simp: GithubApi_get_def Let_def print_line_def split: sum.splits option.splits if_splits)

lemma GithubApi_info_trace:
  "GithubApi_info E api repo s = (r, s') \<Longrightarrow> \<exists>rqs. trace s' = trace s @ rqs \<and> length rqs \<le> 1"
  by (auto simp: GithubApi_info_def split: sum.splits json.splits dest!: GithubApi_get_trace)

text \<open>
  Claim C6, amended. \<^verbatim>\<open>inforepos\<close> walks \<^verbatim>\<open>args.REPOS\<close> in order. Once the names
  \<open>pre\<close> have been handled without an exception, the next name is handled as follows. A
  name that does not parse is reported and skipped: the batch goes on with the names after
  it. A name that parses is fetched; when the fetch raises, the whole batch ends with that
  exception in the state the failed fetch left (at most one more request), so none of the
  names after it is looked up; the same holds when printing the fetched record raises.
  Only when fetch and print both succeed does the batch go on with the names after it.
\<close>

theorem inforepos_batch:
  "inforepos E api a s = inforepos_loop E api a (arg_REPOS a) s \<and>
   (inforepos_loop E api a pre s = (Inr (), sp) \<longrightarrow>
     (sanitizereponame name = None \<longrightarrow>
        inforepos_loop E api a (pre @ name # post) s =
          inforepos_loop E api a post (print_line (report_line name) sp)) \<and>
     (sanitizereponame name = Some repo \<and> GithubApi_info E api repo sp = (Inl e, s1) \<longrightarrow>
        inforepos_loop E api a (pre @ name # post) s = (Inl e, s1) \<and>
        (\<exists>rqs. trace s1 = trace sp @ rqs \<and> length rqs \<le> 1)) \<and>
     (sanitizereponame name = Some repo \<and> GithubApi_info E api repo sp = (Inr (info, hdrs), s1) \<and>
      printrepoinfo info ''full_name'' a s1 = (Inl e, s2) \<longrightarrow>
        inforepos_loop E api a (pre @ name # post) s = (Inl e, s2)) \<and>
     (sanitizereponame name = Some repo \<and> GithubApi_info E api repo sp = (Inr (info, hdrs), s1) \<and>
      printrepoinfo info ''full_name'' a s1 = (Inr (), s2) \<longrightarrow>
        inforepos_loop E api a (pre @ name # post) s = inforepos_loop E api a post s2))"
proof (intro conjI impI)
  show "inforepos E api a s = inforepos_loop E api a (arg_REPOS a) s"
    by (simp add: inforepos_def)
next
  assume pre: "inforepos_loop E api a pre s = (Inr (), sp)" and "sanitizereponame name = None"
  then show "inforepos_loop E api a (pre @ name # post) s =
          inforepos_loop E api a post (print_line (report_line name) sp)"
    by (simp add: inforepos_loop_append [OF pre] report_line_def)
next
  assume pre: "inforepos_loop E api a pre s = (Inr (), sp)"
    and h: "sanitizereponame name = Some repo \<and> GithubApi_info E api repo sp = (Inl e, s1)"
  then show "inforepos_loop E api a (pre @ name # post) s = (Inl e, s1)"
    using sanitizereponame_nonempty [of name repo]
    by (simp add: inforepos_loop_append [OF pre])
next
  assume h: "sanitizereponame name = Some repo \<and> GithubApi_info E api repo sp = (Inl e, s1)"
  then show "\<exists>rqs. trace s1 = trace sp @ rqs \<and> length rqs \<le> 1"
    using GithubApi_info_trace [of E api repo sp "Inl e" s1] by simp
next
  assume pre: "inforepos_loop E api a pre s = (Inr (), sp)"
    and h: "sanitizereponame name = Some repo \<and> GithubApi_info E api repo sp = (Inr (info, hdrs), s1) \<and>
      printrepoinfo info ''full_name'' a s1 = (Inl e, s2)"
  then show "inforepos_loop E api a (pre @ name # post) s = (Inl e, s2)"
    using sanitizereponame_nonempty [of name repo]
    by (simp add: inforepos_loop_append [OF pre])
next
  assume pre: "inforepos_loop E api a pre s = (Inr (), sp)"
    and h: "sanitizereponame name = Some repo \<and> GithubApi_info E api repo sp = (Inr (info, hdrs), s1) \<and>
      printrepoinfo info ''full_name'' a s1 = (Inr (), s2)"
  then show "inforepos_loop E api a (pre @ name # post) s = inforepos_loop E api a post s2"
    using sanitizereponame_nonempty [of name repo]
    by (simp add: inforepos_loop_append [OF pre])
qed


text \<open>
  A repository service: \<^verbatim>\<open>a/b\<close> is answered with 404 and a message, \<^verbatim>\<open>e/f\<close> with an
  empty record, every other repository with the record of \<^verbatim>\<open>c/d\<close>.
\<close>

definition repo_service :: "request \<Rightarrow> exn + response" where
  "repo_service rq =
     (if req_url rq = ''https://api.github.com/repos/a/b''
      then Inr \<lparr>resp_status = 404, resp_headers = [], resp_content = ''NOTFOUND''\<rparr>
      else if req_url rq = ''https://api.github.com/repos/e/f''
      then Inr \<lparr>resp_status = 200, resp_headers = [], resp_content = ''EMPTY''\<rparr>
      else Inr \<lparr>resp_status = 200, resp_headers = [], resp_content = ''REPO''\<rparr>)"

definition repo_doc :: json where
  "repo_doc = JObj [(''size'', JInt 7), (''full_name'', JStr ''c/d''), (''description'', JNull)]"

definition decode_repo :: "string \<Rightarrow> exn + json" where
  "decode_repo body =
     (if body = ''NOTFOUND'' then Inr (JObj [(''message'', JStr ''Not Found'')])
      else if body = ''EMPTY'' then Inr (JObj [])
      else if body = ''REPO'' then Inr repo_doc
      else Inl JSONDecodeError)"


text \<open>
  Against C6 as stated: in the batch \<^verbatim>\<open>a/b\<close>, \<^verbatim>\<open>c/d\<close> the failure of \<^verbatim>\<open>a/b\<close> ends the
  run after one request, although \<^verbatim>\<open>c/d\<close> on its own is fetched and printed.
\<close>

theorem inforepos_abort_counterexample:
  "inforepos (stub_env repo_service decode_repo) api0 (args0\<lparr>arg_REPOS := [''a/b'', ''c/d'']\<rparr>) io0 =
     (Inl (PyException (JStr ''Not Found'')),
      \<lparr>trace = [\<lparr>req_url = ''https://api.github.com/repos/a/b'', req_params = []\<rparr>],
       out = [PrintVals [JStr ''HTTP status'', JInt 404, JObj [(''message'', JStr ''Not Found'')]],
              PrintResponse \<lparr>resp_status = 404, resp_headers = [], resp_content = ''NOTFOUND''\<rparr>]\<rparr>) \<and>
   inforepos (stub_env repo_service decode_repo) api0 (args0\<lparr>arg_REPOS := [''c/d'']\<rparr>) io0 =
     (Inr (),
      \<lparr>trace = [\<lparr>req_url = ''https://api.github.com/repos/c/d'', req_params = []\<rparr>],
       out = [Printf ''%10d %-25s %s'' [JInt 7, JStr ''c/d'', JNull]]\<rparr>)"
  by (simp add: inforepos_def args0_def sanitizereponame_def sub_github.simps occ_github_def
        match_owner_repo_def GithubApi_info_def GithubApi_getapi_def GithubApi_get_def
        decode_body_def stub_env_def repo_service_def decode_repo_def api0_def io0_def
        default_d_def unpack_split_def py_replace.simps print_line_def Let_def
        printrepoinfo_def and_then_def getjs.simps py_format_def repo_doc_def)


text \<open>The states that the runs below end in.\<close>

definition io_nope :: io where
  "io_nope = \<lparr>trace = [], out = [report_line ''nope'']\<rparr>"

definition io_ab :: io where
  "io_ab = \<lparr>trace = [\<lparr>req_url = ''https://api.github.com/repos/a/b'', req_params = []\<rparr>],
            out = [report_line ''nope'',
                   PrintVals [JStr ''HTTP status'', JInt 404, JObj [(''message'', JStr ''Not Found'')]],
                   PrintResponse \<lparr>resp_status = 404, resp_headers = [], resp_content = ''NOTFOUND''\<rparr>]\<rparr>"

definition io_ef :: io where
  "io_ef = \<lparr>trace = [\<lparr>req_url = ''https://api.github.com/repos/e/f'', req_params = []\<rparr>], out = []\<rparr>"

definition io_cd :: io where
  "io_cd = \<lparr>trace = [\<lparr>req_url = ''https://api.github.com/repos/c/d'', req_params = []\<rparr>],
            out = [Printf ''%10d %-25s %s'' [JInt 7, JStr ''c/d'', JNull]]\<rparr>"

text \<open>The equations that evaluate a run against the repository service.\<close>

lemmas run_simps =
  sanitizereponame_def sub_github.simps occ_github_def
  match_owner_repo_def GithubApi_info_def GithubApi_getapi_def GithubApi_get_def
  decode_body_def stub_env_def repo_service_def decode_repo_def api0_def io0_def
  default_d_def unpack_split_def py_replace.simps print_line_def Let_def
  printrepoinfo_def and_then_def getjs.simps py_format_def repo_doc_def args0_def

text \<open>
  C6 at the service above: \<^verbatim>\<open>nope\<close> is skipped, \<^verbatim>\<open>a/b\<close> fails in the fetch, \<^verbatim>\<open>e/f\<close>
  fails in the print, and \<^verbatim>\<open>c/d\<close> succeeds.
\<close>

theorem inforepos_batch_witness:
  "sanitizereponame ''nope'' = None \<and>
   inforepos_loop (stub_env repo_service decode_repo) api0 args0 ([] @ ''nope'' # [''a/b'', ''c/d'']) io0 =
     inforepos_loop (stub_env repo_service decode_repo) api0 args0 [''a/b'', ''c/d''] io_nope \<and>
   inforepos_loop (stub_env repo_service decode_repo) api0 args0 ([''nope''] @ ''a/b'' # [''c/d'']) io0 =
     (Inl (PyException (JStr ''Not Found'')), io_ab) \<and>
   inforepos_loop (stub_env repo_service decode_repo) api0 args0 ([] @ ''e/f'' # [''c/d'']) io0 =
     (Inl (KeyError ''size''), io_ef) \<and>
   inforepos_loop (stub_env repo_service decode_repo) api0 args0 ([] @ ''c/d'' # []) io0 =
     (Inr (), io_cd)"
proof -
  let ?E = "stub_env repo_service decode_repo"
  have nil: "inforepos_loop ?E api0 args0 [] io0 = (Inr (), io0)" by simp
  have nope: "sanitizereponame ''nope'' = None" by (simp add: run_simps)
  have pn: "print_line (report_line ''nope'') io0 = io_nope"
    by (simp add: print_line_def io0_def io_nope_def)
  have pre: "inforepos_loop ?E api0 args0 [''nope''] io0 = (Inr (), io_nope)"
    using nope pn by (simp add: report_line_def)
  have ab: "sanitizereponame ''a/b'' = Some ''a/b'' \<and>
      GithubApi_info ?E api0 ''a/b'' io_nope = (Inl (PyException (JStr ''Not Found'')), io_ab)"
    by (simp add: run_simps io_nope_def io_ab_def)
  have ef: "sanitizereponame ''e/f'' = Some ''e/f'' \<and>
      GithubApi_info ?E api0 ''e/f'' io0 = (Inr (JObj [], []), io_ef) \<and>
      printrepoinfo (JObj []) ''full_name'' args0 io_ef = (Inl (KeyError ''size''), io_ef)"
    by (simp add: run_simps io_ef_def)
  have cd: "sanitizereponame ''c/d'' = Some ''c/d'' \<and>
      GithubApi_info ?E api0 ''c/d'' io0 = (Inr (repo_doc, []), io_ef\<lparr>trace := [\<lparr>req_url = ''https://api.github.com/repos/c/d'', req_params = []\<rparr>]\<rparr>) \<and>
      printrepoinfo repo_doc ''full_name'' args0 (io_ef\<lparr>trace := [\<lparr>req_url = ''https://api.github.com/repos/c/d'', req_params = []\<rparr>]\<rparr>) = (Inr (), io_cd)"
    by (simp add: run_simps io_ef_def io_cd_def)
  from inforepos_batch [where E = ?E and api = api0 and a = args0 and s = io0 and pre = "[]"
         and sp = io0 and name = "''nope''" and post = "[''a/b'', ''c/d'']"] nil nope pn
  have 1: "inforepos_loop ?E api0 args0 ([] @ ''nope'' # [''a/b'', ''c/d'']) io0 =
     inforepos_loop ?E api0 args0 [''a/b'', ''c/d''] io_nope" by simp
  from inforepos_batch [where E = ?E and api = api0 and a = args0 and s = io0 and pre = "[''nope'']"
         and sp = io_nope and name = "''a/b''" and post = "[''c/d'']" and repo = "''a/b''"
         and e = "PyException (JStr ''Not Found'')" and ?s1.0 = io_ab] pre ab
  have 2: "inforepos_loop ?E api0 args0 ([''nope''] @ ''a/b'' # [''c/d'']) io0 =
     (Inl (PyException (JStr ''Not Found'')), io_ab)" by blast
  from inforepos_batch [where E = ?E and api = api0 and a = args0 and s = io0 and pre = "[]"
         and sp = io0 and name = "''e/f''" and post = "[''c/d'']" and repo = "''e/f''"
         and e = "KeyError ''size''" and info = "JObj []" and hdrs = "[]" and ?s1.0 = io_ef
         and ?s2.0 = io_ef] nil ef
  have 3: "inforepos_loop ?E api0 args0 ([] @ ''e/f'' # [''c/d'']) io0 = (Inl (KeyError ''size''), io_ef)"
    by blast
  from inforepos_batch [where E = ?E and api = api0 and a = args0 and s = io0 and pre = "[]"
         and sp = io0 and name = "''c/d''" and post = "[]" and repo = "''c/d''"
         and info = repo_doc and hdrs = "[]"
         and ?s1.0 = "io_ef\<lparr>trace := [\<lparr>req_url = ''https://api.github.com/repos/c/d'', req_params = []\<rparr>]\<rparr>"
         and ?s2.0 = io_cd] nil cd
  have 4: "inforepos_loop ?E api0 args0 ([] @ ''c/d'' # []) io0 = (Inr (), io_cd)"
    by simp
  from nope 1 2 3 4 show ?thesis by blast
qed

subsection \<open>The search orchestrator\<close>

























end
